theory Spec2Isabelle
  imports Complex_Main
begin

section \<open>The bill-rate update of the planned matrix\<close>

text \<open>
  The development embeds \<^verbatim>\<open>update_bill_rate\<close> of
  \<^verbatim>\<open>planMatrix-billRate-Update/function_app.py\<close>: the handler reads two tables
  from blob storage, cleans the override table (\<^verbatim>\<open>Labor Category.csv\<close>), retypes
  the join columns of both, collapses the overrides to one row per key, left-joins them
  onto the planned matrix, replaces \<^verbatim>\<open>billRate\<close> where an override is attached,
  checks the row count and writes the table back.

  A data frame is a list of rows, a row is a record of cells. The pandas operations are
  modelled cell by cell, a failing cell failing the whole column operation, as the raised
  exception does. Both tables have the columns the handler names (a missing column is
  excluded by the record types), and \<^verbatim>\<open>laborCategory.name\<close> is a text column.
  Not modelled: the dtype pandas infers for a whole column (and the errors
  \<^verbatim>\<open>merge\<close> raises for two key columns of different dtypes), binary rounding of
  floating-point numbers (a finite number is the exact rational its decimal text
  denotes), and non-ASCII text.
\<close>

subsection \<open>Cells\<close>

text \<open>A float that is not NaN. NaN is pandas' missing value and is a null cell.\<close>

datatype pyfloat = NInf | Fin rat | PInf

instantiation pyfloat :: linorder
begin

fun less_eq_pyfloat :: "pyfloat \<Rightarrow> pyfloat \<Rightarrow> bool" where
  "less_eq_pyfloat NInf b = True"
| "less_eq_pyfloat (Fin p) NInf = False"
| "less_eq_pyfloat (Fin p) (Fin q) = (p \<le> q)"
| "less_eq_pyfloat (Fin p) PInf = True"
| "less_eq_pyfloat PInf b = (b = PInf)"

definition less_pyfloat :: "pyfloat \<Rightarrow> pyfloat \<Rightarrow> bool" where
  "less_pyfloat a b = (a \<le> b \<and> \<not> b \<le> a)"

instance
proof
  fix x y z :: pyfloat
  show "(x < y) = (x \<le> y \<and> \<not> y \<le> x)"
    by (simp add: less_pyfloat_def)
  show "x \<le> x"
    by (cases x) simp_all
  show "x \<le> y \<Longrightarrow> y \<le> z \<Longrightarrow> x \<le> z"
    by (cases x; cases y; cases z) simp_all
  show "x \<le> y \<Longrightarrow> y \<le> x \<Longrightarrow> x = y"
    by (cases x; cases y) simp_all
  show "x \<le> y \<or> y \<le> x"
    by (cases x; cases y) auto
qed

end

text \<open>
  A cell of a numeric or text column as \<^verbatim>\<open>read_csv\<close> yields it: missing, a
  number, or text.
\<close>

datatype cell = Null | Num pyfloat | Text string

text \<open>
  A cell of a date column: missing, text still to be parsed, or a timestamp
  (nanoseconds since the epoch, as \<^verbatim>\<open>datetime64[ns]\<close> stores it).
\<close>

datatype dcell = NaT | DateText string | Stamp int

datatype error =
    Int64CastError cell
  | FloatParseError string
  | DatetimeParseError string

subsection \<open>Rows\<close>

text \<open>
  The five join columns \<^verbatim>\<open>person.key\<close>, \<^verbatim>\<open>project.key\<close>,
  \<^verbatim>\<open>laborCategory.name\<close>, \<^verbatim>\<open>beginDate\<close>, \<^verbatim>\<open>endDate\<close>. A row
  of the planned matrix adds \<^verbatim>\<open>billRate\<close> and, in the record's extension, every
  other column of the file; a row of the override table adds \<^verbatim>\<open>new_billRate\<close>
  (text or number before the conversion of lines 94-100, a float or NaN after it).
\<close>

record key_row =
  person_key :: cell
  project_key :: cell
  laborCategory_name :: "string option"
  beginDate :: dcell
  endDate :: dcell

record pm_row = key_row +
  billRate :: cell

record 'r lc_row = key_row +
  new_billRate :: 'r

type_synonym composite_key = "cell \<times> cell \<times> string option \<times> dcell \<times> dcell"

definition key :: "'a key_row_scheme \<Rightarrow> composite_key" where
  "key r = (person_key r, project_key r, laborCategory_name r, beginDate r, endDate r)"

subsection \<open>Text to numbers: Python's \<^verbatim>\<open>int\<close> and \<^verbatim>\<open>float\<close>\<close>

definition is_digit :: "char \<Rightarrow> bool" where
  "is_digit c = (c \<in> set ''0123456789'')"

definition digit_val :: "char \<Rightarrow> nat" where
  "digit_val c = of_char c - 48"

definition nat_of_digits :: "string \<Rightarrow> nat" where
  "nat_of_digits ds = foldl (\<lambda>a c. 10 * a + digit_val c) 0 ds"

text \<open>
  The whitespace \<^verbatim>\<open>int\<close> and \<^verbatim>\<open>float\<close> strip from both ends of a
  text: the characters 9 to 13 and the blank. The separators 28 to 31 are not among
  them: a text that holds one is rejected.
\<close>

definition is_space :: "char \<Rightarrow> bool" where
  "is_space c = ((of_char c :: nat) \<in> {9, 10, 11, 12, 13, 32})"

definition py_strip :: "string \<Rightarrow> string" where
  "py_strip s = rev (dropWhile is_space (rev (dropWhile is_space s)))"

text \<open>
  Underscores in a numeral (PEP 515): each one stands between two digits. The function
  removes them, or fails as CPython's scan does; \<open>prev\<close> is the character before.
\<close>

fun drop_underscores :: "char option \<Rightarrow> string \<Rightarrow> string option" where
  "drop_underscores prev [] = (if prev = Some CHR ''_'' then None else Some [])"
| "drop_underscores prev (c # cs) =
     (if c = CHR ''_''
      then (case prev of
              None \<Rightarrow> None
            | Some p \<Rightarrow> if is_digit p then drop_underscores (Some c) cs else None)
      else if prev = Some CHR ''_'' \<and> \<not> is_digit c then None
      else map_option ((#) c) (drop_underscores (Some c) cs))"

definition parse_sign :: "string \<Rightarrow> bool \<times> string" where
  "parse_sign s =
     (case s of
        [] \<Rightarrow> (False, [])
      | c # t \<Rightarrow> if c = CHR ''-'' then (True, t)
                else if c = CHR ''+'' then (False, t) else (False, s))"

text \<open>\<^verbatim>\<open>int(s)\<close> in base 10: blanks around, a sign, digits.\<close>

definition py_int :: "string \<Rightarrow> int option" where
  "py_int s =
     (let (neg, r) = parse_sign (py_strip s) in
      case drop_underscores None r of
        None \<Rightarrow> None
      | Some ds \<Rightarrow>
          if ds \<noteq> [] \<and> list_all is_digit ds
          then Some (if neg then - int (nat_of_digits ds) else int (nat_of_digits ds))
          else None)"

text \<open>A letter of \<open>s\<close> matches the lower-case letter \<open>p\<close> in either case.\<close>

definition ci_match :: "char \<Rightarrow> char \<Rightarrow> bool" where
  "ci_match c p = (c = p \<or> (of_char c :: nat) + 32 = of_char p)"

definition ci_equal :: "string \<Rightarrow> string \<Rightarrow> bool" where
  "ci_equal s p = list_all2 ci_match s p"

definition parse_exponent :: "string \<Rightarrow> int option" where
  "parse_exponent t =
     (let (neg, ds) = parse_sign t in
      if ds \<noteq> [] \<and> list_all is_digit ds
      then Some (if neg then - int (nat_of_digits ds) else int (nat_of_digits ds))
      else None)"

definition scale10 :: "nat \<Rightarrow> int \<Rightarrow> rat" where
  "scale10 m e = (if 0 \<le> e then of_nat m * 10 ^ nat e else of_nat m / 10 ^ nat (- e))"

text \<open>
  An unsigned decimal numeral: digits, an optional point and digits (one digit at
  least on either side), an optional exponent.
\<close>

definition parse_decimal :: "string \<Rightarrow> rat option" where
  "parse_decimal s =
     (let ip = takeWhile is_digit s;
          r1 = dropWhile is_digit s;
          (fp, r2) = (case r1 of
                        [] \<Rightarrow> ([], [])
                      | c # t \<Rightarrow> if c = CHR ''.''
                                then (takeWhile is_digit t, dropWhile is_digit t)
                                else ([], r1));
          m = nat_of_digits (ip @ fp)
      in if ip = [] \<and> fp = [] then None
         else (case r2 of
                 [] \<Rightarrow> Some (scale10 m (- int (length fp)))
               | c # t \<Rightarrow>
                   if c = CHR ''e'' \<or> c = CHR ''E''
                   then map_option (\<lambda>e. scale10 m (e - int (length fp))) (parse_exponent t)
                   else None))"

text \<open>
  \<^verbatim>\<open>float(s)\<close>: \<open>None\<close> is the \<^verbatim>\<open>ValueError\<close>, \<open>Some None\<close> is NaN.
\<close>

definition py_float :: "string \<Rightarrow> pyfloat option option" where
  "py_float s =
     (case drop_underscores None (py_strip s) of
        None \<Rightarrow> None
      | Some u \<Rightarrow>
          (let (neg, r) = parse_sign u in
           if ci_equal r ''inf'' \<or> ci_equal r ''infinity''
           then Some (Some (if neg then NInf else PInf))
           else if ci_equal r ''nan'' then Some None
           else (case parse_decimal r of
                   None \<Rightarrow> None
                 | Some q \<Rightarrow> Some (Some (Fin (if neg then - q else q))))))"

text \<open>
  The characters a text that \<^verbatim>\<open>float\<close> accepts is made of: digits, blanks,
  signs, the point, the underscore, the exponent mark, and the letters of
  \<^verbatim>\<open>inf\<close>, \<^verbatim>\<open>infinity\<close> and \<^verbatim>\<open>nan\<close> in either case.
\<close>

definition float_char :: "char \<Rightarrow> bool" where
  "float_char c =
     (is_digit c \<or> is_space c \<or> c \<in> set ''+-._eE'' \<or> list_ex (ci_match c) ''infinitynan'')"

subsection \<open>The column conversions (lines 85-106)\<close>

definition int64_range :: "int \<Rightarrow> bool" where
  "int64_range i = (- (2 ^ 63) \<le> i \<and> i < 2 ^ 63)"

text \<open>
  \<^verbatim>\<open>.astype("Int64")\<close>, one cell: a missing value stays missing, a whole number in
  range is kept, text goes through \<^verbatim>\<open>int\<close>; everything else raises.
\<close>

fun to_Int64 :: "cell \<Rightarrow> error + cell" where
  "to_Int64 Null = Inr Null"
| "to_Int64 (Num (Fin q)) =
     (if of_int \<lfloor>q\<rfloor> = q \<and> int64_range \<lfloor>q\<rfloor> then Inr (Num (Fin q))
      else Inl (Int64CastError (Num (Fin q))))"
| "to_Int64 (Num f) = Inl (Int64CastError (Num f))"
| "to_Int64 (Text s) =
     (case py_int s of
        None \<Rightarrow> Inl (Int64CastError (Text s))
      | Some i \<Rightarrow> if int64_range i then Inr (Num (Fin (of_int i)))
                  else Inl (Int64CastError (Text s)))"

text \<open>\<^verbatim>\<open>.str.replace("$", "").str.replace(",", "")\<close>, both literal.\<close>

definition strip_currency :: "string \<Rightarrow> string" where
  "strip_currency s = filter (\<lambda>c. c \<noteq> CHR '','') (filter (\<lambda>c. c \<noteq> CHR ''$'') s)"

text \<open>
  Lines 94-100, one cell. A number printed by \<^verbatim>\<open>astype(str)\<close> holds neither
  \<^verbatim>\<open>$\<close> nor a comma and reads back as itself; NaN prints as \<^verbatim>\<open>nan\<close> and
  reads back as NaN.
\<close>

fun rate_to_float :: "cell \<Rightarrow> error + pyfloat option" where
  "rate_to_float Null = Inr None"
| "rate_to_float (Num f) = Inr (Some f)"
| "rate_to_float (Text s) =
     (case py_float (strip_currency s) of
        None \<Rightarrow> Inl (FloatParseError (strip_currency s))
      | Some v \<Rightarrow> Inr v)"

text \<open>
  \<^verbatim>\<open>pd.to_datetime\<close>, one cell. Which date texts pandas accepts is left open: the
  parser \<open>dp\<close> is a parameter of the development, with \<open>dp s = None\<close> for a text that
  raises, \<open>Some None\<close> for a text read as NaT and \<open>Some (Some t)\<close> for a timestamp.
\<close>

type_synonym date_parser = "string \<Rightarrow> int option option"

fun to_datetime :: "date_parser \<Rightarrow> dcell \<Rightarrow> error + dcell" where
  "to_datetime dp NaT = Inr NaT"
| "to_datetime dp (Stamp t) = Inr (Stamp t)"
| "to_datetime dp (DateText s) =
     (case dp s of
        None \<Rightarrow> Inl (DatetimeParseError s)
      | Some None \<Rightarrow> Inr NaT
      | Some (Some t) \<Rightarrow> Inr (Stamp t))"

text \<open>A column operation: the first cell that raises ends it.\<close>

fun map_rows :: "('a \<Rightarrow> error + 'b) \<Rightarrow> 'a list \<Rightarrow> error + 'b list" where
  "map_rows f [] = Inr []"
| "map_rows f (r # rs) =
     (case f r of
        Inl e \<Rightarrow> Inl e
      | Inr r' \<Rightarrow> (case map_rows f rs of Inl e \<Rightarrow> Inl e | Inr rs' \<Rightarrow> Inr (r' # rs')))"

definition bind :: "error + 'a \<Rightarrow> ('a \<Rightarrow> error + 'b) \<Rightarrow> error + 'b" where
  "bind m f = (case m of Inl e \<Rightarrow> Inl e | Inr x \<Rightarrow> f x)"

text \<open>Line 85: \<^verbatim>\<open>dropna\<close> over the six columns.\<close>

definition complete :: "cell lc_row \<Rightarrow> bool" where
  "complete r =
     (person_key r \<noteq> Null \<and> project_key r \<noteq> Null \<and> laborCategory_name r \<noteq> None \<and>
      beginDate r \<noteq> NaT \<and> endDate r \<noteq> NaT \<and> new_billRate r \<noteq> Null)"

definition dropna :: "cell lc_row list \<Rightarrow> cell lc_row list" where
  "dropna rows = filter complete rows"

definition astype_person_key :: "'a key_row_scheme \<Rightarrow> error + 'a key_row_scheme" where
  "astype_person_key r = bind (to_Int64 (person_key r)) (\<lambda>v. Inr (r\<lparr>person_key := v\<rparr>))"

definition astype_project_key :: "'a key_row_scheme \<Rightarrow> error + 'a key_row_scheme" where
  "astype_project_key r = bind (to_Int64 (project_key r)) (\<lambda>v. Inr (r\<lparr>project_key := v\<rparr>))"

definition astype_new_billRate :: "cell lc_row \<Rightarrow> error + pyfloat option lc_row" where
  "astype_new_billRate r =
     bind (rate_to_float (new_billRate r))
       (\<lambda>v. Inr \<lparr>person_key = person_key r, project_key = project_key r,
                 laborCategory_name = laborCategory_name r,
                 beginDate = beginDate r, endDate = endDate r, new_billRate = v\<rparr>)"

definition to_datetime_beginDate ::
  "date_parser \<Rightarrow> 'a key_row_scheme \<Rightarrow> error + 'a key_row_scheme" where
  "to_datetime_beginDate dp r =
     bind (to_datetime dp (beginDate r)) (\<lambda>v. Inr (r\<lparr>beginDate := v\<rparr>))"

definition to_datetime_endDate ::
  "date_parser \<Rightarrow> 'a key_row_scheme \<Rightarrow> error + 'a key_row_scheme" where
  "to_datetime_endDate dp r =
     bind (to_datetime dp (endDate r)) (\<lambda>v. Inr (r\<lparr>endDate := v\<rparr>))"

text \<open>
  Lines 85-106 in the order of the source: the two frames after the conversions, or
  the first exception.
\<close>

definition convert_frames ::
  "date_parser \<Rightarrow> 'a pm_row_scheme list \<Rightarrow> cell lc_row list \<Rightarrow>
     error + ('a pm_row_scheme list \<times> pyfloat option lc_row list)" where
  "convert_frames dp planned_matrix_df labor_category_df =
     bind (map_rows astype_person_key (dropna labor_category_df)) (\<lambda>lc1.
     bind (map_rows astype_project_key lc1) (\<lambda>lc2.
     bind (map_rows astype_person_key planned_matrix_df) (\<lambda>pm1.
     bind (map_rows astype_project_key pm1) (\<lambda>pm2.
     bind (map_rows astype_new_billRate lc2) (\<lambda>lc3.
     bind (map_rows (to_datetime_beginDate dp) lc3) (\<lambda>lc4.
     bind (map_rows (to_datetime_endDate dp) lc4) (\<lambda>lc5.
     bind (map_rows (to_datetime_beginDate dp) pm2) (\<lambda>pm3.
     bind (map_rows (to_datetime_endDate dp) pm3) (\<lambda>pm4.
     Inr (pm4, lc5))))))))))"

subsection \<open>Collapse, join and substitution (lines 108-125)\<close>

text \<open>
  \<^verbatim>\<open>groupby\<close> leaves out every row with a null in a key column
  (\<^verbatim>\<open>dropna=True\<close>).
\<close>

definition key_notnull :: "'a key_row_scheme \<Rightarrow> bool" where
  "key_notnull r =
     (person_key r \<noteq> Null \<and> project_key r \<noteq> Null \<and> laborCategory_name r \<noteq> None \<and>
      beginDate r \<noteq> NaT \<and> endDate r \<noteq> NaT)"

text \<open>The aggregation \<^verbatim>\<open>max\<close> skips NaN; a group of NaN only yields NaN.\<close>

fun agg_max :: "pyfloat option list \<Rightarrow> pyfloat option" where
  "agg_max [] = None"
| "agg_max (None # vs) = agg_max vs"
| "agg_max (Some v # vs) =
     (case agg_max vs of None \<Rightarrow> Some v | Some w \<Rightarrow> Some (max v w))"

definition mk_lc_row :: "composite_key \<Rightarrow> 'r \<Rightarrow> 'r lc_row" where
  "mk_lc_row k v =
     (case k of (pk, jk, n, b, e) \<Rightarrow>
        \<lparr>person_key = pk, project_key = jk, laborCategory_name = n,
         beginDate = b, endDate = e, new_billRate = v\<rparr>)"

text \<open>
  Lines 109-112: one row per key, holding the key and the largest rate of its rows.
  pandas lists the groups in ascending key order; here they stand in the order
  \<open>remdups\<close> leaves them in. The join below finds an override by its key, so
  the order of the override rows reaches no later step.
\<close>

definition groupby_max :: "pyfloat option lc_row list \<Rightarrow> pyfloat option lc_row list" where
  "groupby_max rows =
     (let kept = filter key_notnull rows in
      map (\<lambda>k. mk_lc_row k (agg_max (map new_billRate (filter (\<lambda>r. key r = k) kept))))
        (remdups (map key kept)))"

text \<open>
  Lines 115-119: \<^verbatim>\<open>merge(how="left")\<close>. Every left row yields one output row
  per right row with the same key, in the left order, and one row with a missing
  \<^verbatim>\<open>new_billRate\<close> when there is none. Keys are compared as values; pandas
  matches a null key with a null key as well.
\<close>

definition merge_left ::
  "'a pm_row_scheme list \<Rightarrow> 'r option lc_row list \<Rightarrow> ('a pm_row_scheme \<times> 'r option) list" where
  "merge_left left right =
     concat (map (\<lambda>l. case filter (\<lambda>r. key r = key l) right of
                          [] \<Rightarrow> [(l, None)]
                        | m # ms \<Rightarrow> map (\<lambda>r. (l, new_billRate r)) (m # ms)) left)"

text \<open>Line 122, one cell: \<^verbatim>\<open>new_billRate.combine_first(billRate)\<close>.\<close>

definition combine_first :: "pyfloat option \<Rightarrow> cell \<Rightarrow> cell" where
  "combine_first new old = (case new of Some v \<Rightarrow> Num v | None \<Rightarrow> old)"

text \<open>Lines 122-125: the substitution, and the helper column dropped.\<close>

definition substitute :: "('a pm_row_scheme \<times> pyfloat option) \<Rightarrow> 'a pm_row_scheme" where
  "substitute j = (fst j)\<lparr>billRate := combine_first (snd j) (billRate (fst j))\<rparr>"

text \<open>Lines 108-125 on the two converted frames.\<close>

definition reconcile ::
  "'a pm_row_scheme list \<Rightarrow> pyfloat option lc_row list \<Rightarrow> 'a pm_row_scheme list" where
  "reconcile planned_matrix_df labor_category_df =
     map substitute (merge_left planned_matrix_df (groupby_max labor_category_df))"

text \<open>
  What the join attaches to a left row with key \<open>k\<close> when no two right rows share
  a key: the rate of the right row with that key, if there is one.
\<close>

definition attached_rate :: "'r option lc_row list \<Rightarrow> composite_key \<Rightarrow> 'r option" where
  "attached_rate right k =
     (case find (\<lambda>r. key r = k) right of None \<Rightarrow> None | Some r \<Rightarrow> new_billRate r)"

text \<open>
  The conversions of lines 88-106 read row by row: what they make of one row of the
  planned matrix, and of one row of the override table.
\<close>

definition convert_pm_row :: "date_parser \<Rightarrow> 'a pm_row_scheme \<Rightarrow> error + 'a pm_row_scheme" where
  "convert_pm_row dp b =
     bind (astype_person_key b) (\<lambda>b1.
     bind (astype_project_key b1) (\<lambda>b2.
     bind (to_datetime_beginDate dp b2) (to_datetime_endDate dp)))"

definition convert_lc_row :: "date_parser \<Rightarrow> cell lc_row \<Rightarrow> error + pyfloat option lc_row" where
  "convert_lc_row dp r =
     bind (astype_person_key r) (\<lambda>r1.
     bind (astype_project_key r1) (\<lambda>r2.
     bind (astype_new_billRate r2) (\<lambda>r3.
     bind (to_datetime_beginDate dp r3) (to_datetime_endDate dp))))"

subsection \<open>The handler (lines 59-143)\<close>

text \<open>
  The three responses of the handler, by their text:
  \<^verbatim>\<open>CSV file updated and uploaded successfully.\<close>,
  \<^verbatim>\<open>Row count mismatch: Original=.., Updated=..\<close> and
  \<^verbatim>\<open>Error processing request: ..\<close>.
\<close>

datatype body =
    Updated
  | RowCountMismatch nat nat
  | ErrorProcessing error

record response =
  body :: body
  status_code :: nat

text \<open>
  The two blobs, each as a frame: what \<^verbatim>\<open>read_csv\<close> makes of the blob, or
  the frame \<^verbatim>\<open>to_csv\<close> printed into it (printing the cells and reading them
  back is not modelled). Reading and writing a blob can fail in ways of their own; that
  is left out.
\<close>

record 'a storage =
  planned_matrix_csv :: "'a pm_row_scheme list"
  labor_category_csv :: "cell lc_row list"

text \<open>Lines 127-139: the row count check, then the upload.\<close>

definition check_and_write ::
  "'a pm_row_scheme list \<Rightarrow> 'a pm_row_scheme list \<Rightarrow> 'a storage \<Rightarrow> response \<times> 'a storage" where
  "check_and_write planned_matrix_df updated_planned_matrix st =
     (let final_row_count = length updated_planned_matrix;
          original_row_count = length planned_matrix_df
      in if final_row_count \<noteq> original_row_count
         then (\<lparr>body = RowCountMismatch original_row_count final_row_count,
                status_code = 500\<rparr>, st)
         else (\<lparr>body = Updated, status_code = 200\<rparr>,
               st\<lparr>planned_matrix_csv := updated_planned_matrix\<rparr>))"

definition update_bill_rate :: "date_parser \<Rightarrow> 'a storage \<Rightarrow> response \<times> 'a storage" where
  "update_bill_rate dp st =
     (case convert_frames dp (planned_matrix_csv st) (labor_category_csv st) of
        Inl e \<Rightarrow> (\<lparr>body = ErrorProcessing e, status_code = 500\<rparr>, st)
      | Inr (planned_matrix_df, labor_category_df) \<Rightarrow>
          check_and_write planned_matrix_df
            (reconcile planned_matrix_df labor_category_df) st)"

subsection \<open>A date parser for ISO calendar dates\<close>

text \<open>
  An instance of the parser for concrete runs: it reads \<^verbatim>\<open>YYYY-MM-DD\<close> as
  midnight of that day, the texts pandas reads as NaT as NaT, and rejects every other
  text. pandas accepts more formats; the instance is used on ISO dates and on text
  that is no date at all.
\<close>

definition leap_year :: "int \<Rightarrow> bool" where
  "leap_year y = (y mod 4 = 0 \<and> (y mod 100 \<noteq> 0 \<or> y mod 400 = 0))"

definition days_in_month :: "int \<Rightarrow> int \<Rightarrow> int" where
  "days_in_month y m =
     (if m = 2 then (if leap_year y then 29 else 28)
      else if m = 4 \<or> m = 6 \<or> m = 9 \<or> m = 11 then 30 else 31)"

definition days_from_civil :: "int \<Rightarrow> int \<Rightarrow> int \<Rightarrow> int" where
  "days_from_civil y m d =
     (let y' = (if m \<le> 2 then y - 1 else y);
          era = y' div 400;
          yoe = y' - era * 400;
          doy = (153 * (if m > 2 then m - 3 else m + 9) + 2) div 5 + d - 1;
          doe = yoe * 365 + yoe div 4 - yoe div 100 + doy
      in era * 146097 + doe - 719468)"

definition nat_strings :: "string list" where
  "nat_strings = [[], ''NaT'', ''nat'', ''NAT'', ''nan'', ''NaN'', ''NAN'']"

definition iso_date :: date_parser where
  "iso_date s =
     (if s \<in> set nat_strings then Some None
      else if length s = 10 \<and> s ! 4 = CHR ''-'' \<and> s ! 7 = CHR ''-'' \<and>
              list_all is_digit (take 4 s) \<and> list_all is_digit (take 2 (drop 5 s)) \<and>
              list_all is_digit (drop 8 s)
      then (let y = int (nat_of_digits (take 4 s));
                m = int (nat_of_digits (take 2 (drop 5 s)));
                d = int (nat_of_digits (drop 8 s));
                ns = days_from_civil y m d * 86400 * 1000000000
            in if 1 \<le> m \<and> m \<le> 12 \<and> 1 \<le> d \<and> d \<le> days_in_month y m \<and> int64_range ns
               then Some (Some ns) else None)
      else None)"

subsection \<open>The tables of the running example\<close>

text \<open>
  One assignment (person 1, project 10, Engineer, the first half of 2024, rate 100), a
  second one on project 11, and overrides for the first, before and after the conversions.
\<close>

definition example_baseline :: pm_row where
  "example_baseline =
     \<lparr>person_key = Num (Fin 1), project_key = Num (Fin 10),
      laborCategory_name = Some ''Engineer'',
      beginDate = DateText ''2024-01-01'', endDate = DateText ''2024-06-30'',
      billRate = Num (Fin 100)\<rparr>"

definition example_override :: "string \<Rightarrow> cell lc_row" where
  "example_override rate =
     \<lparr>person_key = Num (Fin 1), project_key = Num (Fin 10),
      laborCategory_name = Some ''Engineer'',
      beginDate = DateText ''2024-01-01'', endDate = DateText ''2024-06-30'',
      new_billRate = Text rate\<rparr>"

definition example_storage :: "unit storage" where
  "example_storage =
     \<lparr>planned_matrix_csv = [example_baseline, example_baseline\<lparr>project_key := Num (Fin 11)\<rparr>],
      labor_category_csv = [example_override ''$100.00'', example_override ''$150.00'']\<rparr>"

definition converted_baseline :: "cell \<Rightarrow> pm_row" where
  "converted_baseline rate =
     \<lparr>person_key = Num (Fin 1), project_key = Num (Fin 10),
      laborCategory_name = Some ''Engineer'',
      beginDate = Stamp 1704067200000000000, endDate = Stamp 1719705600000000000,
      billRate = rate\<rparr>"

definition converted_override :: "pyfloat option \<Rightarrow> pyfloat option lc_row" where
  "converted_override rate =
     \<lparr>person_key = Num (Fin 1), project_key = Num (Fin 10),
      laborCategory_name = Some ''Engineer'',
      beginDate = Stamp 1704067200000000000, endDate = Stamp 1719705600000000000,
      new_billRate = rate\<rparr>"

section \<open>Properties\<close>

subsection \<open>The collapsed overrides and the join\<close>

lemma key_mk_lc_row: "key (mk_lc_row k v) = k"
  by (simp add: key_def mk_lc_row_def split: prod.splits)

lemma new_billRate_mk_lc_row: "new_billRate (mk_lc_row k v) = v"
  by (simp add: mk_lc_row_def split: prod.splits)

lemma key_billRate_update: "key (l\<lparr>billRate := v\<rparr>) = key l"
  by (simp add: key_def)

lemma key_notnull_cong: "key r = key r' \<Longrightarrow> key_notnull r = key_notnull r'"
  by (simp add: key_def key_notnull_def)

lemma map_key_groupby_max:
  "map key (groupby_max rows) = remdups (map key (filter key_notnull rows))"
  by (simp add: groupby_max_def Let_def comp_def key_mk_lc_row)

lemma distinct_groupby_max: "distinct (map key (groupby_max rows))"
  by (simp add: map_key_groupby_max)

lemma filter_distinct_key:
  "distinct (map f xs) \<Longrightarrow>
   filter (\<lambda>x. f x = k) xs = (case find (\<lambda>x. f x = k) xs of None \<Rightarrow> [] | Some x \<Rightarrow> [x])"
proof (induction xs)
  case Nil
  then show ?case by simp
next
  case (Cons a xs)
  show ?case
  proof (cases "f a = k")
    case True
    with Cons.prems have "k \<notin> f ` set xs" by auto
    then have "filter (\<lambda>x. f x = k) xs = []" by (auto simp: filter_empty_conv)
    with True show ?thesis by simp
  next
    case False
    with Cons show ?thesis by simp
  qed
qed

lemma merge_left_distinct:
  assumes "distinct (map key right)"
  shows "merge_left left right = map (\<lambda>l. (l, attached_rate right (key l))) left"
proof (induction left)
  case Nil
  show ?case by (simp add: merge_left_def)
next
  case (Cons l left)
  have "(case filter (\<lambda>r. key r = key l) right of
           [] \<Rightarrow> [(l, None)]
         | m # ms \<Rightarrow> map (\<lambda>r. (l, new_billRate r)) (m # ms)) = [(l, attached_rate right (key l))]"
    by (simp add: filter_distinct_key [OF assms] attached_rate_def split: option.splits)
  moreover have "merge_left (l # left) right =
      (case filter (\<lambda>r. key r = key l) right of
           [] \<Rightarrow> [(l, None)]
         | m # ms \<Rightarrow> map (\<lambda>r. (l, new_billRate r)) (m # ms)) @ merge_left left right"
    by (simp add: merge_left_def)
  ultimately show ?case using Cons.IH by simp
qed

lemma reconcile_eq:
  "reconcile pm lc =
     map (\<lambda>l. l\<lparr>billRate := combine_first (attached_rate (groupby_max lc) (key l)) (billRate l)\<rparr>) pm"
  by (simp add: reconcile_def merge_left_distinct [OF distinct_groupby_max] substitute_def comp_def)

lemma finite_Some_set: "finite {v. Some v \<in> set vs}"
proof -
  have "{v. Some v \<in> set vs} = Some -` set vs" by auto
  then show ?thesis by (simp add: finite_vimageI)
qed

lemma agg_max_eq:
  "agg_max vs = (if {v. Some v \<in> set vs} = {} then None else Some (Max {v. Some v \<in> set vs}))"
proof (induction vs rule: agg_max.induct)
  case 1
  then show ?case by simp
next
  case (2 vs)
  then show ?case by simp
next
  case (3 v vs)
  have ins: "{w. Some w \<in> set (Some v # vs)} = insert v {w. Some w \<in> set vs}" by auto
  show ?case
  proof (cases "{w. Some w \<in> set vs} = {}")
    case True
    with 3 show ?thesis unfolding ins by auto
  next
    case False
    then have "Max (insert v {w. Some w \<in> set vs}) = max v (Max {w. Some w \<in> set vs})"
      by (rule Max_insert [OF finite_Some_set])
    with 3 False show ?thesis unfolding ins by auto
  qed
qed

lemma find_eq_key: "find (\<lambda>x. x = k) ks = (if k \<in> set ks then Some k else None)"
  by (induction ks) auto

lemma find_map_key:
  "(\<And>k'. f (g k') = k') \<Longrightarrow> find (\<lambda>r. f r = k) (map g ks) = map_option g (find (\<lambda>x. x = k) ks)"
  by (induction ks) auto

lemma filter_key_kept:
  "key_notnull r0 \<Longrightarrow> key r0 = k \<Longrightarrow>
   filter (\<lambda>r. key_notnull r \<and> key r = k) rows = filter (\<lambda>r. key r = k) rows"
  by (rule filter_cong) (auto dest: key_notnull_cong)

lemma attached_rate_groupby_max:
  "attached_rate (groupby_max rows) k =
     (if \<exists>r\<in>set rows. key_notnull r \<and> key r = k
      then agg_max (map new_billRate (filter (\<lambda>r. key r = k) rows)) else None)"
proof (cases "\<exists>r\<in>set rows. key_notnull r \<and> key r = k")
  case True
  then obtain r0 where r0: "r0 \<in> set rows" "key_notnull r0" "key r0 = k" by blast
  then have "k \<in> set (remdups (map key (filter key_notnull rows)))" by force
  with True show ?thesis
    by (simp add: attached_rate_def groupby_max_def Let_def find_map_key [where f=key, OF key_mk_lc_row]
        find_eq_key new_billRate_mk_lc_row filter_key_kept [OF r0(2,3)])
next
  case False
  then have "k \<notin> set (remdups (map key (filter key_notnull rows)))" by auto
  with False show ?thesis
    by (auto simp add: attached_rate_def groupby_max_def Let_def find_map_key [where f=key, OF key_mk_lc_row]
        find_eq_key)
qed

lemma length_reconcile: "length (reconcile pm lc) = length pm"
  by (simp add: reconcile_eq)

lemma reconcile_Nil: "reconcile pm [] = pm"
  by (simp add: reconcile_eq groupby_max_def attached_rate_def combine_first_def)

lemma reconcile_idem: "reconcile (reconcile pm lc) lc = reconcile pm lc"
  by (simp add: reconcile_eq comp_def key_billRate_update combine_first_def split: option.splits)

lemma reconcile_erase:
  "map (\<lambda>r. r\<lparr>billRate := Null\<rparr>) (reconcile pm lc) = map (\<lambda>r. r\<lparr>billRate := Null\<rparr>) pm"
  by (simp add: reconcile_eq comp_def)

subsection \<open>The conversions and the handler\<close>

lemma bind_Inr_iff: "(bind m f = Inr y) = (\<exists>x. m = Inr x \<and> f x = Inr y)"
  by (cases m) (simp_all add: bind_def)

lemma map_rows_Inr_D:
  "map_rows f xs = Inr ys \<Longrightarrow> list_all2 (\<lambda>x y. f x = Inr y) xs ys"
  by (induction xs arbitrary: ys) (auto split: sum.splits)

lemma map_rows_Inr_I:
  "list_all2 (\<lambda>x y. f x = Inr y) xs ys \<Longrightarrow> map_rows f xs = Inr ys"
  by (induction rule: list_all2_induct) simp_all

lemma map_rows_Inr_iff: "(map_rows f xs = Inr ys) = list_all2 (\<lambda>x y. f x = Inr y) xs ys"
  using map_rows_Inr_D map_rows_Inr_I by blast

lemma map_rows_comp:
  "(\<exists>ys. map_rows f xs = Inr ys \<and> map_rows g ys = Inr zs) =
   (map_rows (\<lambda>x. bind (f x) g) xs = Inr zs)"
proof -
  have "(\<lambda>x z. bind (f x) g = Inr z) = (\<lambda>x y. f x = Inr y) OO (\<lambda>y z. g y = Inr z)"
    by (auto simp: bind_Inr_iff fun_eq_iff)
  then show ?thesis
    by (simp add: map_rows_Inr_iff list.rel_compp) (auto simp: relcompp_apply)
qed

lemma convert_frames_Inr_iff:
  "(convert_frames dp B Ov = Inr (pm, lc)) =
   (map_rows (convert_pm_row dp) B = Inr pm \<and> map_rows (convert_lc_row dp) (dropna Ov) = Inr lc)"
proof -
  have pm: "(map_rows (convert_pm_row dp) B = Inr pm) =
      (\<exists>pm1 pm2 pm3. map_rows astype_person_key B = Inr pm1 \<and> map_rows astype_project_key pm1 = Inr pm2 \<and>
          map_rows (to_datetime_beginDate dp) pm2 = Inr pm3 \<and> map_rows (to_datetime_endDate dp) pm3 = Inr pm)"
    unfolding convert_pm_row_def map_rows_comp [symmetric] by blast
  have lc: "(map_rows (convert_lc_row dp) (dropna Ov) = Inr lc) =
      (\<exists>lc1 lc2 lc3 lc4. map_rows astype_person_key (dropna Ov) = Inr lc1 \<and> map_rows astype_project_key lc1 = Inr lc2 \<and>
          map_rows astype_new_billRate lc2 = Inr lc3 \<and>
          map_rows (to_datetime_beginDate dp) lc3 = Inr lc4 \<and> map_rows (to_datetime_endDate dp) lc4 = Inr lc)"
    unfolding convert_lc_row_def map_rows_comp [symmetric] by blast
  show ?thesis
    unfolding pm lc convert_frames_def bind_Inr_iff by auto
qed

lemma convert_pm_row_Inr_iff:
  "(convert_pm_row dp b = Inr p) =
   (\<exists>pk jk bd ed. to_Int64 (person_key b) = Inr pk \<and> to_Int64 (project_key b) = Inr jk \<and>
      to_datetime dp (beginDate b) = Inr bd \<and> to_datetime dp (endDate b) = Inr ed \<and>
      p = b\<lparr>person_key := pk, project_key := jk, beginDate := bd, endDate := ed\<rparr>)"
  by (auto simp: convert_pm_row_def astype_person_key_def astype_project_key_def
      to_datetime_beginDate_def to_datetime_endDate_def bind_Inr_iff)


lemma to_Int64_idem: "to_Int64 c = Inr c' \<Longrightarrow> to_Int64 c' = Inr c'"
  by (induction c rule: to_Int64.induct) (auto split: if_splits option.splits)

lemma to_datetime_idem: "to_datetime dp d = Inr d' \<Longrightarrow> to_datetime dp d' = Inr d'"
  by (induction dp d rule: to_datetime.induct) (auto split: option.splits)

lemma convert_pm_row_fixed:
  "to_Int64 (person_key q) = Inr (person_key q) \<Longrightarrow>
   to_Int64 (project_key q) = Inr (project_key q) \<Longrightarrow>
   to_datetime dp (beginDate q) = Inr (beginDate q) \<Longrightarrow>
   to_datetime dp (endDate q) = Inr (endDate q) \<Longrightarrow> convert_pm_row dp q = Inr q"
  by (simp add: convert_pm_row_def astype_person_key_def astype_project_key_def
      to_datetime_beginDate_def to_datetime_endDate_def bind_def)

lemma convert_pm_row_idem:
  assumes "convert_pm_row dp b = Inr p"
  shows "convert_pm_row dp (p\<lparr>billRate := v\<rparr>) = Inr (p\<lparr>billRate := v\<rparr>)"
proof -
  from assms obtain pk jk bd ed where
    h: "to_Int64 (person_key b) = Inr pk" "to_Int64 (project_key b) = Inr jk"
       "to_datetime dp (beginDate b) = Inr bd" "to_datetime dp (endDate b) = Inr ed"
       "p = b\<lparr>person_key := pk, project_key := jk, beginDate := bd, endDate := ed\<rparr>"
    by (auto simp: convert_pm_row_Inr_iff)
  show ?thesis
    by (rule convert_pm_row_fixed)
      (simp_all add: h(5) to_Int64_idem [OF h(1)] to_Int64_idem [OF h(2)]
        to_datetime_idem [OF h(3)] to_datetime_idem [OF h(4)])
qed

lemma update_bill_rate_ok:
  "convert_frames dp (planned_matrix_csv st) (labor_category_csv st) = Inr (pm, lc) \<Longrightarrow>
   update_bill_rate dp st =
     (\<lparr>body = Updated, status_code = 200\<rparr>, st\<lparr>planned_matrix_csv := reconcile pm lc\<rparr>)"
  by (simp add: update_bill_rate_def check_and_write_def length_reconcile)

lemma update_bill_rate_fail:
  "convert_frames dp (planned_matrix_csv st) (labor_category_csv st) = Inl e \<Longrightarrow>
   update_bill_rate dp st = (\<lparr>body = ErrorProcessing e, status_code = 500\<rparr>, st)"
  by (simp add: update_bill_rate_def)

lemma update_bill_rate_Updated:
  "update_bill_rate dp st = (resp, st') \<Longrightarrow> body resp = Updated \<Longrightarrow>
   \<exists>pm lc. convert_frames dp (planned_matrix_csv st) (labor_category_csv st) = Inr (pm, lc) \<and>
     st' = st\<lparr>planned_matrix_csv := reconcile pm lc\<rparr> \<and> resp = \<lparr>body = Updated, status_code = 200\<rparr>"
  by (auto simp: update_bill_rate_def check_and_write_def length_reconcile Let_def
      split: sum.splits prod.splits if_splits)

subsection \<open>The running example, evaluated\<close>

lemma iso_date_begin: "iso_date ''2024-01-01'' = Some (Some 1704067200000000000)"
  by code_simp

lemma iso_date_end: "iso_date ''2024-06-30'' = Some (Some 1719705600000000000)"
  by code_simp

lemma py_float_100: "py_float (strip_currency ''$100.00'') = Some (Some (Fin 100))"
  by (simp add: py_float_def strip_currency_def py_strip_def is_space_def parse_sign_def ci_equal_def
      ci_match_def parse_decimal_def is_digit_def nat_of_digits_def digit_val_def scale10_def)

lemma py_float_150: "py_float (strip_currency ''$150.00'') = Some (Some (Fin 150))"
  by (simp add: py_float_def strip_currency_def py_strip_def is_space_def parse_sign_def ci_equal_def
      ci_match_def parse_decimal_def is_digit_def nat_of_digits_def digit_val_def scale10_def)

lemma convert_example_baseline:
  "convert_pm_row iso_date (example_baseline\<lparr>billRate := v\<rparr>) = Inr (converted_baseline v)"
  "convert_pm_row iso_date (example_baseline\<lparr>project_key := Num (Fin 11)\<rparr>) =
     Inr ((converted_baseline (Num (Fin 100)))\<lparr>project_key := Num (Fin 11)\<rparr>)"
  by (simp_all add: convert_pm_row_def astype_person_key_def astype_project_key_def
      to_datetime_beginDate_def to_datetime_endDate_def bind_def example_baseline_def
      converted_baseline_def int64_range_def iso_date_begin iso_date_end)

lemma convert_example_override:
  "convert_lc_row iso_date (example_override ''$100.00'') = Inr (converted_override (Some (Fin 100)))"
  "convert_lc_row iso_date (example_override ''$150.00'') = Inr (converted_override (Some (Fin 150)))"
  by (simp_all add: convert_lc_row_def astype_person_key_def astype_project_key_def
      astype_new_billRate_def to_datetime_beginDate_def to_datetime_endDate_def bind_def
      example_override_def converted_override_def int64_range_def iso_date_begin iso_date_end
      py_float_100 py_float_150)

lemma complete_example_override: "complete (example_override s)"
  by (simp add: complete_def example_override_def)

lemma key_converted:
  "key (converted_override v) = key (converted_baseline w)"
  "key ((converted_baseline w)\<lparr>project_key := Num (Fin 11)\<rparr>) \<noteq> key (converted_baseline w')"
  "key_notnull (converted_override v)"
  by (simp_all add: key_def key_notnull_def converted_override_def converted_baseline_def)

lemma reconcile_example:
  "reconcile [converted_baseline (Num (Fin 100)),
      (converted_baseline (Num (Fin 100)))\<lparr>project_key := Num (Fin 11)\<rparr>]
     [converted_override (Some (Fin 100)), converted_override (Some (Fin 150))] =
   [converted_baseline (Num (Fin 150)),
    (converted_baseline (Num (Fin 100)))\<lparr>project_key := Num (Fin 11)\<rparr>]"
  by (simp add: reconcile_eq attached_rate_groupby_max combine_first_def key_def key_notnull_def
      converted_baseline_def converted_override_def)

lemma convert_example_frames:
  "convert_frames iso_date (planned_matrix_csv example_storage) (labor_category_csv example_storage) =
      Inr ([converted_baseline (Num (Fin 100)),
            (converted_baseline (Num (Fin 100)))\<lparr>project_key := Num (Fin 11)\<rparr>],
           [converted_override (Some (Fin 100)), converted_override (Some (Fin 150))])"
proof -
  have "convert_pm_row iso_date example_baseline = Inr (converted_baseline (Num (Fin 100)))"
    using convert_example_baseline(1) [of "Num (Fin 100)"] by (simp add: example_baseline_def)
  then show ?thesis
    by (simp add: convert_frames_Inr_iff example_storage_def dropna_def complete_example_override
        convert_example_baseline(2) convert_example_override)
qed

lemma update_example:
  "update_bill_rate iso_date example_storage =
     (\<lparr>body = Updated, status_code = 200\<rparr>,
      example_storage\<lparr>planned_matrix_csv :=
        [converted_baseline (Num (Fin 150)),
         (converted_baseline (Num (Fin 100)))\<lparr>project_key := Num (Fin 11)\<rparr>]\<rparr>)"
  by (simp add: update_bill_rate_ok [OF convert_example_frames] reconcile_example)

lemma convert_pm_row_billRate:
  "convert_pm_row dp b = Inr p \<Longrightarrow> p\<lparr>billRate := billRate b\<rparr> = p"
  by (auto simp: convert_pm_row_Inr_iff)

lemma length_filter_distinct_key:
  "distinct (map f xs) \<Longrightarrow> length (filter (\<lambda>x. f x = k) xs) = (if k \<in> f ` set xs then 1 else 0)"
  by (induction xs) (auto simp: filter_empty_conv)

lemma groupby_max_example:
  "groupby_max [converted_override (Some (Fin 100)), converted_override (Some (Fin 150))] =
     [converted_override (Some (Fin 150))]"
  by (simp add: groupby_max_def key_def key_notnull_def converted_override_def mk_lc_row_def max_def)

lemma dropna_incomplete: "\<not> complete r \<Longrightarrow> dropna (xs @ r # ys) = dropna (xs @ ys)"
  by (simp add: dropna_def)

lemma convert_frames_dropna:
  "dropna xs = dropna ys \<Longrightarrow> convert_frames dp B xs = convert_frames dp B ys"
  by (simp add: convert_frames_def)

lemma update_bill_rate_frames:
  "convert_frames dp (planned_matrix_csv s1) (labor_category_csv s1) =
   convert_frames dp (planned_matrix_csv s2) (labor_category_csv s2) \<Longrightarrow>
   planned_matrix_csv s1 = planned_matrix_csv s2 \<Longrightarrow>
   fst (update_bill_rate dp s1) = fst (update_bill_rate dp s2) \<and>
   planned_matrix_csv (snd (update_bill_rate dp s1)) = planned_matrix_csv (snd (update_bill_rate dp s2))"
  by (cases "convert_frames dp (planned_matrix_csv s2) (labor_category_csv s2)")
    (auto simp: update_bill_rate_ok update_bill_rate_fail)

subsection \<open>What the parsers accept, and failing conversions\<close>




















lemma not_float_char_separator: "\<not> float_char (CHR 0x1C)"
  by (simp add: float_char_def is_digit_def is_space_def ci_match_def)

lemma separator_rejected:
  "py_float [CHR 0x1C, CHR ''1''] = None" "py_int [CHR 0x1C, CHR ''1''] = None"
  "py_float [CHR 0x09, CHR ''1'', CHR '' ''] = Some (Some (Fin 1))"
  "py_int [CHR 0x09, CHR ''1'', CHR '' ''] = Some 1"
  by (simp_all add: py_float_def py_int_def py_strip_def is_space_def parse_sign_def ci_equal_def
      ci_match_def parse_decimal_def is_digit_def nat_of_digits_def digit_val_def scale10_def)

section \<open>The claims\<close>

text \<open>
  C1. Baseline preservation: the reconciled table has as many rows as the planned
  matrix, and row for row it is the planned matrix with at most \<^verbatim>\<open>billRate\<close>
  changed, so no row is dropped, repeated or moved. For the handler: when it answers
  that the file was updated, the stored table is, position by position, the old one
  with its join columns converted and \<^verbatim>\<open>billRate\<close> possibly replaced.
\<close>

theorem baseline_preservation:
  "length (reconcile pm lc) = length pm \<and>
   map (\<lambda>r. r\<lparr>billRate := Null\<rparr>) (reconcile pm lc) = map (\<lambda>r. r\<lparr>billRate := Null\<rparr>) pm \<and>
   (update_bill_rate dp st = (resp, st') \<and> body resp = Updated \<longrightarrow>
      list_all2 (\<lambda>b u. convert_pm_row dp b = Inr (u\<lparr>billRate := billRate b\<rparr>))
        (planned_matrix_csv st) (planned_matrix_csv st'))"
proof (intro conjI impI)
  show "length (reconcile pm lc) = length pm"
    by (rule length_reconcile)
  show "map (\<lambda>r. r\<lparr>billRate := Null\<rparr>) (reconcile pm lc) = map (\<lambda>r. r\<lparr>billRate := Null\<rparr>) pm"
    by (rule reconcile_erase)
next
  assume "update_bill_rate dp st = (resp, st') \<and> body resp = Updated"
  then obtain pm' lc' where
    n: "convert_frames dp (planned_matrix_csv st) (labor_category_csv st) = Inr (pm', lc')" and
    s: "st' = st\<lparr>planned_matrix_csv := reconcile pm' lc'\<rparr>"
    using update_bill_rate_Updated by blast
  from n have "list_all2 (\<lambda>b p. convert_pm_row dp b = Inr p) (planned_matrix_csv st) pm'"
    by (simp add: convert_frames_Inr_iff map_rows_Inr_iff)
  then have "list_all2 (\<lambda>b p. convert_pm_row dp b =
        Inr (p\<lparr>billRate := combine_first (attached_rate (groupby_max lc') (key p)) (billRate p),
               billRate := billRate b\<rparr>))
      (planned_matrix_csv st) pm'"
    by (rule list_all2_mono) (simp add: convert_pm_row_billRate)
  then show "list_all2 (\<lambda>b u. convert_pm_row dp b = Inr (u\<lparr>billRate := billRate b\<rparr>))
      (planned_matrix_csv st) (planned_matrix_csv st')"
    by (simp add: s reconcile_eq list_all2_map2)
qed

theorem baseline_preservation_witness:
  "update_bill_rate iso_date example_storage =
     (\<lparr>body = Updated, status_code = 200\<rparr>,
      example_storage\<lparr>planned_matrix_csv :=
        [converted_baseline (Num (Fin 150)),
         (converted_baseline (Num (Fin 100)))\<lparr>project_key := Num (Fin 11)\<rparr>]\<rparr>) \<and>
   list_all2 (\<lambda>b u. convert_pm_row iso_date b = Inr (u\<lparr>billRate := billRate b\<rparr>))
     (planned_matrix_csv example_storage)
     [converted_baseline (Num (Fin 150)),
      (converted_baseline (Num (Fin 100)))\<lparr>project_key := Num (Fin 11)\<rparr>]"
proof -
  note h = update_example
  have "body \<lparr>body = Updated, status_code = 200\<rparr> = Updated" by simp
  with h baseline_preservation [of "[] :: pm_row list" "[]" iso_date example_storage
        "\<lparr>body = Updated, status_code = 200\<rparr>"
        "example_storage\<lparr>planned_matrix_csv :=
          [converted_baseline (Num (Fin 150)),
           (converted_baseline (Num (Fin 100)))\<lparr>project_key := Num (Fin 11)\<rparr>]\<rparr>"]
  have "list_all2 (\<lambda>b u. convert_pm_row iso_date b = Inr (u\<lparr>billRate := billRate b\<rparr>))
     (planned_matrix_csv example_storage)
     (planned_matrix_csv (example_storage\<lparr>planned_matrix_csv :=
          [converted_baseline (Num (Fin 150)),
           (converted_baseline (Num (Fin 100)))\<lparr>project_key := Num (Fin 11)\<rparr>]\<rparr>))"
    by blast
  then show ?thesis using h by simp
qed

text \<open>
  C2. Substitution rule: every joined row carries the rate of the one collapsed override
  with its key, or nothing; the output \<^verbatim>\<open>billRate\<close> is the attached rate when
  there is one, also when it is zero, and the old \<^verbatim>\<open>billRate\<close> otherwise.
\<close>

theorem substitution_rule:
  "map billRate (reconcile pm lc) =
     map (\<lambda>l. case attached_rate (groupby_max lc) (key l) of
                 Some v \<Rightarrow> Num v
               | None \<Rightarrow> billRate l) pm \<and>
   merge_left pm (groupby_max lc) = map (\<lambda>l. (l, attached_rate (groupby_max lc) (key l))) pm \<and>
   billRate (substitute (l, Some (Fin 0))) = Num (Fin 0) \<and>
   billRate (substitute (l, Some v)) = Num v \<and>
   billRate (substitute (l, None)) = billRate l"
  by (simp add: reconcile_eq comp_def combine_first_def substitute_def
      merge_left_distinct [OF distinct_groupby_max])

theorem substitution_rule_witness:
  "map billRate (reconcile [converted_baseline (Num (Fin 100)),
        (converted_baseline (Num (Fin 80)))\<lparr>project_key := Num (Fin 11)\<rparr>]
      [converted_override (Some (Fin 0))]) = [Num (Fin 0), Num (Fin 80)]"
  using substitution_rule [THEN conjunct1, of "[converted_baseline (Num (Fin 100)),
        (converted_baseline (Num (Fin 80)))\<lparr>project_key := Num (Fin 11)\<rparr>]"
        "[converted_override (Some (Fin 0))]"]
  by (simp add: attached_rate_groupby_max key_def key_notnull_def converted_baseline_def
      converted_override_def)

text \<open>
  C3. Max-collapse: after the grouping every key of a row without a null key column
  stands in exactly one row, no other key stands in any, and the rate of that row is the
  largest rate among the rows of its key (NaN rates left aside; NaN when there is no
  other). Two rows of one key with rates 100 and 150 collapse to one row with rate 150.
\<close>

theorem max_collapse:
  "length (filter (\<lambda>g. key g = k) (groupby_max rows)) =
     (if \<exists>r\<in>set rows. key_notnull r \<and> key r = k then 1 else 0) \<and>
   (g \<in> set (groupby_max rows) \<longrightarrow>
      (\<exists>r\<in>set rows. key_notnull r \<and> key r = key g) \<and>
      new_billRate g =
        (if {v. \<exists>r\<in>set rows. key r = key g \<and> new_billRate r = Some v} = {} then None
         else Some (Max {v. \<exists>r\<in>set rows. key r = key g \<and> new_billRate r = Some v})))"
proof (intro conjI impI)
  have "(k \<in> key ` set (groupby_max rows)) = (\<exists>r\<in>set rows. key_notnull r \<and> key r = k)"
    using map_key_groupby_max [of rows, THEN arg_cong, of set] by (auto simp: image_iff)
  then show "length (filter (\<lambda>g. key g = k) (groupby_max rows)) =
     (if \<exists>r\<in>set rows. key_notnull r \<and> key r = k then 1 else 0)"
    by (simp add: length_filter_distinct_key [OF distinct_groupby_max])
next
  assume g: "g \<in> set (groupby_max rows)"
  then have "g \<in> (\<lambda>k. mk_lc_row k (agg_max (map new_billRate
        (filter (\<lambda>r. key r = k) (filter key_notnull rows))))) ` key ` {r \<in> set rows. key_notnull r}"
    unfolding groupby_max_def Let_def set_map set_remdups set_filter .
  then obtain k' where k': "k' \<in> key ` {r \<in> set rows. key_notnull r}"
    and gk: "g = mk_lc_row k' (agg_max (map new_billRate
        (filter (\<lambda>r. key r = k') (filter key_notnull rows))))"
    by blast
  from k' obtain r0 where r0: "r0 \<in> set rows" "key_notnull r0" "key r0 = k'" by auto
  have kg: "key g = k'" by (simp add: gk key_mk_lc_row)
  from r0 kg show "\<exists>r\<in>set rows. key_notnull r \<and> key r = key g" by auto
  have "new_billRate g = agg_max (map new_billRate (filter (\<lambda>r. key r = k') rows))"
    by (simp add: gk new_billRate_mk_lc_row filter_key_kept [OF r0(2,3)])
  moreover have "{v. Some v \<in> set (map new_billRate (filter (\<lambda>r. key r = k') rows))} =
      {v. \<exists>r\<in>set rows. key r = key g \<and> new_billRate r = Some v}"
    by (auto simp: kg image_iff)
  ultimately show "new_billRate g =
        (if {v. \<exists>r\<in>set rows. key r = key g \<and> new_billRate r = Some v} = {} then None
         else Some (Max {v. \<exists>r\<in>set rows. key r = key g \<and> new_billRate r = Some v}))"
    by (simp only: agg_max_eq)
qed

theorem max_collapse_witness:
  "converted_override (Some (Fin 150)) \<in>
     set (groupby_max [converted_override (Some (Fin 100)), converted_override (Some (Fin 150))]) \<and>
   groupby_max [converted_override (Some (Fin 100)), converted_override (Some (Fin 150))] =
     [converted_override (Some (Fin 150))] \<and>
   length (filter (\<lambda>g. key g = key (converted_override (Some (Fin 150))))
     (groupby_max [converted_override (Some (Fin 100)), converted_override (Some (Fin 150))])) = 1 \<and>
   Max {v. \<exists>r\<in>set [converted_override (Some (Fin 100)), converted_override (Some (Fin 150))].
          key r = key (converted_override (Some (Fin 150))) \<and> new_billRate r = Some v} = Fin 150"
proof -
  define S where "S = {v. \<exists>r\<in>set [converted_override (Some (Fin 100)), converted_override (Some (Fin 150))].
          key r = key (converted_override (Some (Fin 150))) \<and> new_billRate r = Some v}"
  note mc = max_collapse [of "key (converted_override (Some (Fin 150)))"
        "[converted_override (Some (Fin 100)), converted_override (Some (Fin 150))]"
        "converted_override (Some (Fin 150))"]
  have m: "converted_override (Some (Fin 150)) \<in>
     set (groupby_max [converted_override (Some (Fin 100)), converted_override (Some (Fin 150))])"
    by (simp add: groupby_max_example)
  have ne: "S \<noteq> {}"
    unfolding S_def by (auto simp: converted_override_def)
  have r: "new_billRate (converted_override (Some (Fin 150))) = Some (Fin 150)"
    by (simp add: converted_override_def)
  from mc m have "new_billRate (converted_override (Some (Fin 150))) =
      (if S = {} then None else Some (Max S))"
    unfolding S_def by blast
  with ne r have mx: "Max S = Fin 150" by simp
  from mc have "length (filter (\<lambda>g. key g = key (converted_override (Some (Fin 150))))
     (groupby_max [converted_override (Some (Fin 100)), converted_override (Some (Fin 150))])) = 1"
    by (simp add: key_converted(3))
  with m mx show ?thesis
    unfolding S_def by (simp add: groupby_max_example)
qed

text \<open>
  C4. Incomplete overrides are excluded: an override row with a null in one of the five
  key columns or in \<^verbatim>\<open>new_billRate\<close> is dropped by line 85 before anything
  else looks at it; with or without the row the conversions give the same frames (or
  the same error), the handler gives the same answer and the same planned matrix.
\<close>

theorem incomplete_override_excluded:
  assumes "person_key r = Null \<or> project_key r = Null \<or> laborCategory_name r = None \<or>
           beginDate r = NaT \<or> endDate r = NaT \<or> new_billRate r = Null"
  shows "dropna (ov1 @ r # ov2) = dropna (ov1 @ ov2) \<and>
         convert_frames dp B (ov1 @ r # ov2) = convert_frames dp B (ov1 @ ov2) \<and>
         fst (update_bill_rate dp \<lparr>planned_matrix_csv = B, labor_category_csv = ov1 @ r # ov2\<rparr>) =
           fst (update_bill_rate dp \<lparr>planned_matrix_csv = B, labor_category_csv = ov1 @ ov2\<rparr>) \<and>
         planned_matrix_csv
           (snd (update_bill_rate dp \<lparr>planned_matrix_csv = B, labor_category_csv = ov1 @ r # ov2\<rparr>)) =
         planned_matrix_csv
           (snd (update_bill_rate dp \<lparr>planned_matrix_csv = B, labor_category_csv = ov1 @ ov2\<rparr>))"
proof -
  from assms have "\<not> complete r" by (auto simp: complete_def)
  then have d: "dropna (ov1 @ r # ov2) = dropna (ov1 @ ov2)" by (rule dropna_incomplete)
  then have c: "convert_frames dp B (ov1 @ r # ov2) = convert_frames dp B (ov1 @ ov2)"
    by (rule convert_frames_dropna)
  from c show ?thesis
    using d update_bill_rate_frames [of dp
        "\<lparr>planned_matrix_csv = B, labor_category_csv = ov1 @ r # ov2\<rparr>"
        "\<lparr>planned_matrix_csv = B, labor_category_csv = ov1 @ ov2\<rparr>"]
    by simp
qed

theorem incomplete_override_excluded_witness:
  "person_key ((example_override ''$999.00'')\<lparr>person_key := Null\<rparr>) = Null \<and>
   dropna ([example_override ''$150.00''] @ (example_override ''$999.00'')\<lparr>person_key := Null\<rparr> # []) =
     [example_override ''$150.00''] \<and>
   convert_frames iso_date [example_baseline]
     ([example_override ''$150.00''] @ (example_override ''$999.00'')\<lparr>person_key := Null\<rparr> # []) =
   convert_frames iso_date [example_baseline] [example_override ''$150.00'']"
  using incomplete_override_excluded [of "(example_override ''$999.00'')\<lparr>person_key := Null\<rparr>"
      "[example_override ''$150.00'']" "[]" iso_date "[example_baseline]"]
  by (simp add: dropna_def complete_example_override)







text \<open>
  C7. No-override passthrough: with no override rows the reconciliation returns the
  planned matrix as it is; the handler, run on an empty override table, stores the
  planned matrix with its join columns converted and nothing else changed.
\<close>

theorem no_override_passthrough:
  "reconcile pm [] = pm \<and>
   (labor_category_csv st = [] \<and>
    map_rows (convert_pm_row dp) (planned_matrix_csv st) = Inr pm' \<longrightarrow>
      update_bill_rate dp st =
        (\<lparr>body = Updated, status_code = 200\<rparr>, st\<lparr>planned_matrix_csv := pm'\<rparr>))"
proof (intro conjI impI)
  show "reconcile pm [] = pm" by (rule reconcile_Nil)
next
  assume a: "labor_category_csv st = [] \<and>
    map_rows (convert_pm_row dp) (planned_matrix_csv st) = Inr pm'"
  then have "convert_frames dp (planned_matrix_csv st) (labor_category_csv st) = Inr (pm', [])"
    by (simp add: convert_frames_Inr_iff dropna_def)
  then show "update_bill_rate dp st =
        (\<lparr>body = Updated, status_code = 200\<rparr>, st\<lparr>planned_matrix_csv := pm'\<rparr>)"
    by (simp add: update_bill_rate_ok reconcile_Nil)
qed

theorem no_override_passthrough_witness:
  "labor_category_csv \<lparr>planned_matrix_csv = [example_baseline], labor_category_csv = []\<rparr> = [] \<and>
   map_rows (convert_pm_row iso_date)
     (planned_matrix_csv \<lparr>planned_matrix_csv = [example_baseline], labor_category_csv = []\<rparr>) =
     Inr [converted_baseline (Num (Fin 100))] \<and>
   update_bill_rate iso_date \<lparr>planned_matrix_csv = [example_baseline], labor_category_csv = []\<rparr> =
     (\<lparr>body = Updated, status_code = 200\<rparr>,
      \<lparr>planned_matrix_csv = [converted_baseline (Num (Fin 100))], labor_category_csv = []\<rparr>)"
proof -
  have c: "convert_pm_row iso_date example_baseline = Inr (converted_baseline (Num (Fin 100)))"
    using convert_example_baseline(1) [of "Num (Fin 100)"] by (simp add: example_baseline_def)
  then have m: "map_rows (convert_pm_row iso_date)
     (planned_matrix_csv \<lparr>planned_matrix_csv = [example_baseline], labor_category_csv = []\<rparr>) =
     Inr [converted_baseline (Num (Fin 100))]"
    by simp
  show ?thesis
    using m no_override_passthrough [THEN conjunct2, of
        "\<lparr>planned_matrix_csv = [example_baseline], labor_category_csv = []\<rparr>" iso_date
        "[converted_baseline (Num (Fin 100))]"]
    by simp
qed

text \<open>
  C8. Idempotence: reconciling the output again with the same overrides yields the
  same \<^verbatim>\<open>billRate\<close> column; and a second run of the handler on what the first
  run stored answers the same and stores the same.
\<close>

theorem idempotence:
  "map billRate (reconcile (reconcile pm lc) lc) = map billRate (reconcile pm lc) \<and>
   (update_bill_rate dp st = (resp, st') \<and> body resp = Updated \<longrightarrow>
      update_bill_rate dp st' = (resp, st'))"
proof (intro conjI impI)
  show "map billRate (reconcile (reconcile pm lc) lc) = map billRate (reconcile pm lc)"
    by (simp only: reconcile_idem)
next
  assume "update_bill_rate dp st = (resp, st') \<and> body resp = Updated"
  then obtain pm' lc' where
    n: "convert_frames dp (planned_matrix_csv st) (labor_category_csv st) = Inr (pm', lc')" and
    s: "st' = st\<lparr>planned_matrix_csv := reconcile pm' lc'\<rparr>" and
    r: "resp = \<lparr>body = Updated, status_code = 200\<rparr>"
    using update_bill_rate_Updated by blast
  from n have pm: "list_all2 (\<lambda>b p. convert_pm_row dp b = Inr p) (planned_matrix_csv st) pm'"
    and lc: "map_rows (convert_lc_row dp) (dropna (labor_category_csv st)) = Inr lc'"
    by (simp_all add: convert_frames_Inr_iff map_rows_Inr_iff)
  have "\<forall>u\<in>set (reconcile pm' lc'). convert_pm_row dp u = Inr u"
  proof
    fix u assume "u \<in> set (reconcile pm' lc')"
    then obtain p where p: "p \<in> set pm'"
      and u: "u = p\<lparr>billRate := combine_first (attached_rate (groupby_max lc') (key p)) (billRate p)\<rparr>"
      by (auto simp: reconcile_eq)
    from pm p obtain b where "convert_pm_row dp b = Inr p"
      by (auto simp: list_all2_conv_all_nth in_set_conv_nth)
    then show "convert_pm_row dp u = Inr u"
      unfolding u by (rule convert_pm_row_idem)
  qed
  then have "map_rows (convert_pm_row dp) (reconcile pm' lc') = Inr (reconcile pm' lc')"
    by (simp add: map_rows_Inr_iff list_all2_same)
  with lc have "convert_frames dp (planned_matrix_csv st') (labor_category_csv st') =
      Inr (reconcile pm' lc', lc')"
    by (simp add: convert_frames_Inr_iff s)
  then show "update_bill_rate dp st' = (resp, st')"
    by (simp add: update_bill_rate_ok reconcile_idem r s)
qed

theorem idempotence_witness:
  "update_bill_rate iso_date example_storage =
     (\<lparr>body = Updated, status_code = 200\<rparr>,
      example_storage\<lparr>planned_matrix_csv :=
        [converted_baseline (Num (Fin 150)),
         (converted_baseline (Num (Fin 100)))\<lparr>project_key := Num (Fin 11)\<rparr>]\<rparr>) \<and>
   update_bill_rate iso_date
     (example_storage\<lparr>planned_matrix_csv :=
        [converted_baseline (Num (Fin 150)),
         (converted_baseline (Num (Fin 100)))\<lparr>project_key := Num (Fin 11)\<rparr>]\<rparr>) =
     (\<lparr>body = Updated, status_code = 200\<rparr>,
      example_storage\<lparr>planned_matrix_csv :=
        [converted_baseline (Num (Fin 150)),
         (converted_baseline (Num (Fin 100)))\<lparr>project_key := Num (Fin 11)\<rparr>]\<rparr>)"
  using update_example
    idempotence [THEN conjunct2, of iso_date example_storage
        "\<lparr>body = Updated, status_code = 200\<rparr>"
        "example_storage\<lparr>planned_matrix_csv :=
          [converted_baseline (Num (Fin 150)),
           (converted_baseline (Num (Fin 100)))\<lparr>project_key := Num (Fin 11)\<rparr>]\<rparr>"]
  by simp

text \<open>
  C9. Row count mismatch: when the joined table and the planned matrix differ in
  length, the handler answers with status 500 and the mismatch message carrying the
  original and the updated count, and the storage is left as it was.
\<close>

theorem row_count_mismatch:
  "length updated \<noteq> length pm \<Longrightarrow>
   check_and_write pm updated st =
     (\<lparr>body = RowCountMismatch (length pm) (length updated), status_code = 500\<rparr>, st) \<and>
   body (fst (check_and_write pm updated st)) \<noteq> Updated \<and>
   body (fst (check_and_write pm updated st)) \<noteq> ErrorProcessing e"
  by (simp add: check_and_write_def)

theorem row_count_mismatch_witness:
  "length [example_baseline, example_baseline] \<noteq> length [example_baseline] \<and>
   check_and_write [example_baseline] [example_baseline, example_baseline] example_storage =
     (\<lparr>body = RowCountMismatch 1 2, status_code = 500\<rparr>, example_storage)"
  using row_count_mismatch [of "[example_baseline, example_baseline]" "[example_baseline]" example_storage]
  by simp

text \<open>
  C10. The mismatch branch is unreachable: the collapsed overrides hold at most one row
  per key, so the left join yields exactly one row per row of the planned matrix, and
  the handler never answers with the row count mismatch.
\<close>

theorem mismatch_unreachable:
  "length (filter (\<lambda>r. key r = k) (groupby_max lc)) \<le> 1 \<and>
   length (merge_left pm (groupby_max lc)) = length pm \<and>
   body (fst (update_bill_rate dp st)) \<noteq> RowCountMismatch m n"
proof (intro conjI)
  show "length (filter (\<lambda>r. key r = k) (groupby_max lc)) \<le> 1"
    by (simp add: length_filter_distinct_key [OF distinct_groupby_max])
  show "length (merge_left pm (groupby_max lc)) = length pm"
    by (simp add: merge_left_distinct [OF distinct_groupby_max])
  show "body (fst (update_bill_rate dp st)) \<noteq> RowCountMismatch m n"
    by (cases "convert_frames dp (planned_matrix_csv st) (labor_category_csv st)")
      (auto simp: update_bill_rate_ok update_bill_rate_fail)
qed

end
